theory Spec2Isabelle
  imports Main
begin

section \<open>The BookFinder component (src/component/Home.jsx)\<close>

text \<open>
  The component keeps its data in React state cells and changes them through their
  setters. The model is a record of those cells, passed to and returned from each
  handler. An asynchronous \<open>performSearch\<close> is split where the source awaits
  \<open>fetch\<close>: the part before the await issues a request, the part after it consumes the
  response, and any other handler may run in between. The component is rendered once
  after each event. Handlers read the state of the latest render, except the callback
  of the IntersectionObserver, which is the one of the render in which its effect last
  ran.

  The request URL (search type, filters, offset) is not modelled: the response is an
  arbitrary input of the model.
\<close>

subsection \<open>Data\<close>

text \<open>An entry of \<open>data.docs\<close>: the \<open>key\<close> the component compares, and one more field
  so that two entries can share a key and still differ.\<close>

record book =
  key :: string
  title :: string

text \<open>What \<open>await fetch(url)\<close> and \<open>await response.json()\<close> deliver.
  \<open>Failed\<close>: \<open>fetch\<close> rejects, \<open>response.ok\<close> is false or the body does not parse
  (each ends in the \<open>catch\<close> block). \<open>Json docs numFound\<close>: the parsed body, with
  \<open>None\<close> for a field that is absent.\<close>

datatype response = Failed | Json "book list option" "int option"

text \<open>The arguments of one \<open>performSearch\<close> call, kept while its request is awaited.\<close>

record request =
  rq_query :: string
  rq_page :: nat
  rq_isNewSearch :: bool

text \<open>The \<open>useState\<close> cells (lines 5-21), the pending \<open>debounceTimer\<close> with the
  query its callback has captured, and the \<open>searchQuery\<close> and \<open>currentPage\<close> that the
  callback of \<open>observer\<close> has captured.\<close>

record state =
  searchQuery :: string
  books :: "book list"
  loading :: bool
  loadingMore :: bool
  error :: string
  favorites :: "book list"
  currentPage :: nat
  hasMore :: bool
  totalBooks :: int
  debounceTimer :: "string option"
  observer_searchQuery :: string
  observer_currentPage :: nat

definition initial :: state where
  "initial = \<lparr> searchQuery = [], books = [], loading = False, loadingMore = False,
     error = [], favorites = [], currentPage = 0, hasMore = False, totalBooks = 0,
     debounceTimer = None, observer_searchQuery = [], observer_currentPage = 0 \<rparr>"

subsection \<open>Strings\<close>

text \<open>\<open>String.prototype.trim\<close> on strings of 8-bit characters: it removes white space
  and line terminators (tab, LF, VT, FF, CR, space, NBSP) from both ends.\<close>

definition is_ws :: "char \<Rightarrow> bool" where
  "is_ws c = (of_char c \<in> {9, 10, 11, 12, 13, 32, 160 :: nat})"

definition trim :: "string \<Rightarrow> string" where
  "trim s = rev (dropWhile is_ws (rev (dropWhile is_ws s)))"

definition msg_enter_term :: string where
  "msg_enter_term = ''Please enter a search term''"

definition msg_no_books :: string where
  "msg_no_books = ''No books found matching your search criteria''"

definition msg_failed :: string where
  "msg_failed = ''Failed to search books. Please check your internet connection and try again.''"

subsection \<open>performSearch (lines 84-158)\<close>

definition limit :: nat where
  "limit = 20"

text \<open>\<open>data.numFound || 0\<close>\<close>

definition numFound_or_0 :: "int option \<Rightarrow> int" where
  "numFound_or_0 nf = (case nf of None \<Rightarrow> 0 | Some n \<Rightarrow> n)"

text \<open>Lines 85-98, up to the await: the validation, the flags, the cleared error.
  The second component is the request issued, if any.\<close>

definition performSearch_dispatch ::
  "state \<Rightarrow> string \<Rightarrow> nat \<Rightarrow> bool \<Rightarrow> state \<times> request option" where
  "performSearch_dispatch st query page isNewSearch =
     (if trim query = [] then (st\<lparr>error := msg_enter_term\<rparr>, None)
      else
        (let st1 = (if isNewSearch
                    then st\<lparr>loading := True, books := [], currentPage := 0\<rparr>
                    else st\<lparr>loadingMore := True\<rparr>)
         in (st1\<lparr>error := []\<rparr>,
             Some \<lparr>rq_query = query, rq_page = page, rq_isNewSearch = isNewSearch\<rparr>)))"

text \<open>Lines 126-157, after the await: the \<open>try\<close> body on the response, the \<open>catch\<close>
  block, and the \<open>finally\<close> block that clears both loading flags.
  \<open>setBooks(prevBooks => [...prevBooks, ...data.docs])\<close> reads the books of the state
  the response arrives in.\<close>

definition performSearch_resolve :: "state \<Rightarrow> request \<Rightarrow> response \<Rightarrow> state" where
  "performSearch_resolve st rq resp =
     (let st1 =
        (case resp of
           Failed \<Rightarrow> st\<lparr>error := msg_failed\<rparr>
         | Json None nf \<Rightarrow>
             (if rq_isNewSearch rq then st\<lparr>error := msg_no_books\<rparr> else st)
         | Json (Some docs) nf \<Rightarrow>
             (let st2 = st\<lparr>totalBooks := numFound_or_0 nf\<rparr>;
                  st3 = (if rq_isNewSearch rq then st2\<lparr>books := docs\<rparr>
                         else st2\<lparr>books := books st2 @ docs\<rparr>);
                  st4 = st3\<lparr>currentPage := rq_page rq,
                            hasMore := (length docs = limit \<and>
                              int ((rq_page rq + 1) * limit) < numFound_or_0 nf)\<rparr>
              in if length docs = 0 \<and> rq_isNewSearch rq
                 then st4\<lparr>error := msg_no_books\<rparr> else st4))
      in st1\<lparr>loading := False, loadingMore := False\<rparr>)"

text \<open>A call whose response arrives before anything else happens.\<close>

definition performSearch :: "state \<Rightarrow> string \<Rightarrow> nat \<Rightarrow> bool \<Rightarrow> response \<Rightarrow> state" where
  "performSearch st query page isNewSearch resp =
     (case performSearch_dispatch st query page isNewSearch of
        (st1, None) \<Rightarrow> st1
      | (st1, Some rq) \<Rightarrow> performSearch_resolve st1 rq resp)"

subsection \<open>The handlers that call performSearch\<close>

text \<open>\<open>loadMoreBooks\<close> (lines 160-164) and \<open>searchBooks\<close> (lines 166-168).\<close>

definition loadMoreBooks :: "state \<Rightarrow> state \<times> request option" where
  "loadMoreBooks st =
     (if hasMore st \<and> \<not> loadingMore st \<and> \<not> loading st
      then performSearch_dispatch st (searchQuery st) (currentPage st + 1) False
      else (st, None))"

definition searchBooks :: "state \<Rightarrow> state \<times> request option" where
  "searchBooks st = performSearch_dispatch st (searchQuery st) 0 True"

text \<open>The effect that sets up the IntersectionObserver (lines 63-82) has the
  dependencies \<open>hasMore\<close>, \<open>loadingMore\<close> and \<open>loading\<close>: it runs after a render in which
  one of them has changed, and subscribes the callback of that render. The callback
  and the \<open>loadMoreBooks\<close> it calls then read the three flags as they are now, and the
  \<open>searchQuery\<close> and \<open>currentPage\<close> of that render, which later renders may have
  changed.\<close>

definition observer_effect :: "state \<Rightarrow> state \<Rightarrow> state" where
  "observer_effect prev st =
     (if (hasMore st, loadingMore st, loading st) = (hasMore prev, loadingMore prev, loading prev)
      then st
      else st\<lparr>observer_searchQuery := searchQuery st, observer_currentPage := currentPage st\<rparr>)"

text \<open>\<open>loadMoreBooks\<close> (lines 160-164) as such a callback holds it, with the
  \<open>searchQuery\<close> and the \<open>currentPage\<close> it has captured.\<close>

definition loadMoreBooks_captured :: "string \<Rightarrow> nat \<Rightarrow> state \<Rightarrow> state \<times> request option" where
  "loadMoreBooks_captured query page st =
     (if hasMore st \<and> \<not> loadingMore st \<and> \<not> loading st
      then performSearch_dispatch st query (page + 1) False
      else (st, None))"

text \<open>The callback of the IntersectionObserver (lines 66-71), for an entry that is
  intersecting.\<close>

definition observer_callback :: "state \<Rightarrow> state \<times> request option" where
  "observer_callback st =
     (if hasMore st \<and> \<not> loadingMore st \<and> \<not> loading st
      then loadMoreBooks_captured (observer_searchQuery st) (observer_currentPage st) st
      else (st, None))"

text \<open>The timer callback of \<open>debouncedSearch\<close> (lines 38-42), for the query it captured.\<close>

definition debounce_fire :: "state \<Rightarrow> state \<times> request option" where
  "debounce_fire st =
     (case debounceTimer st of
        None \<Rightarrow> (st, None)
      | Some query \<Rightarrow>
          (if trim query \<noteq> []
           then performSearch_dispatch (st\<lparr>debounceTimer := None\<rparr>) query 0 True
           else (st\<lparr>debounceTimer := None\<rparr>, None)))"

text \<open>The effect on \<open>searchQuery\<close> (lines 46-60): it runs after a render in which
  \<open>searchQuery\<close> has changed, after the cleanup of the previous run has cleared the
  timer. \<open>setSearchQuery\<close> with the value the cell already holds causes no render and
  the effect does not run.\<close>

definition searchQuery_effect :: "state \<Rightarrow> state" where
  "searchQuery_effect st =
     (if searchQuery st \<noteq> [] then st\<lparr>debounceTimer := Some (searchQuery st)\<rparr>
      else st\<lparr>books := [], hasMore := False, totalBooks := 0\<rparr>)"

definition setSearchQuery :: "state \<Rightarrow> string \<Rightarrow> state" where
  "setSearchQuery st text =
     (if text = searchQuery st then st
      else searchQuery_effect (st\<lparr>searchQuery := text, debounceTimer := None\<rparr>))"

subsection \<open>Favorites (lines 176-187)\<close>

definition isFavorite :: "state \<Rightarrow> book \<Rightarrow> bool" where
  "isFavorite st b = list_ex (\<lambda>fav. key fav = key b) (favorites st)"

definition toggleFavorite :: "state \<Rightarrow> book \<Rightarrow> state" where
  "toggleFavorite st b =
     (let isAlreadyFavorite = list_ex (\<lambda>fav. key fav = key b) (favorites st)
      in if isAlreadyFavorite
         then st\<lparr>favorites := filter (\<lambda>fav. key fav \<noteq> key b) (favorites st)\<rparr>
         else st\<lparr>favorites := favorites st @ [b]\<rparr>)"

subsection \<open>Events\<close>

text \<open>The component together with the requests that have been issued and not yet
  answered. An event is one handler run to completion (\<open>handle\<close>), followed by the
  render and the observer's effect (\<open>step\<close>); \<open>Respond i resp\<close> resumes the
  \<open>performSearch\<close> call that awaits the \<open>i\<close>-th pending request. No request is ever
  aborted (the source passes no signal to \<open>fetch\<close>). Whether the end of the list is in
  view, so that \<open>ObserverFire\<close> happens, is left to the environment.\<close>

datatype event =
    SetSearchQuery string
  | DebounceFire
  | SearchBooks
  | ObserverFire
  | Respond nat response
  | ToggleFavorite book

fun issue :: "state \<times> request option \<Rightarrow> request list \<Rightarrow> state \<times> request list" where
  "issue (st, None) rs = (st, rs)"
| "issue (st, Some rq) rs = (st, rs @ [rq])"

fun handle :: "event \<Rightarrow> state \<times> request list \<Rightarrow> state \<times> request list" where
  "handle (SetSearchQuery text) (st, rs) = (setSearchQuery st text, rs)"
| "handle DebounceFire (st, rs) = issue (debounce_fire st) rs"
| "handle SearchBooks (st, rs) = issue (searchBooks st) rs"
| "handle ObserverFire (st, rs) = issue (observer_callback st) rs"
| "handle (Respond i resp) (st, rs) =
     (if i < length rs
      then (performSearch_resolve st (rs ! i) resp, take i rs @ drop (Suc i) rs)
      else (st, rs))"
| "handle (ToggleFavorite b) (st, rs) = (toggleFavorite st b, rs)"

definition step :: "event \<Rightarrow> state \<times> request list \<Rightarrow> state \<times> request list" where
  "step e c = (case handle e c of (st1, rs1) \<Rightarrow> (observer_effect (fst c) st1, rs1))"

definition run :: "event list \<Rightarrow> state \<times> request list \<Rightarrow> state \<times> request list" where
  "run es c = fold step es c"



subsection \<open>The status of the specification\<close>

text \<open>The specification speaks of one \<open>status\<close> where the component has two flags and
  an error message. This is the status a state of the component shows.\<close>

datatype status = Idle | Loading | LoadingMore | Error

definition status_of :: "state \<Rightarrow> status" where
  "status_of st =
     (if loading st then Loading
      else if loadingMore st then LoadingMore
      else if error st \<noteq> [] then Error
      else Idle)"

subsection \<open>A session: one new search and its continuations\<close>

text \<open>A page as the service returns it: the records and \<open>numFound\<close>.\<close>

type_synonym page = "book list \<times> int option"

fun page_response :: "page \<Rightarrow> response" where
  "page_response (docs, nf) = Json (Some docs) nf"

text \<open>\<open>searchBooks\<close> answered by the first page, then \<open>loadMoreBooks\<close> answered by each
  further page. \<open>None\<close> when a call issues no request.\<close>

fun continue_session :: "state \<Rightarrow> page list \<Rightarrow> state option" where
  "continue_session st [] = Some st"
| "continue_session st (p # ps) =
     (case loadMoreBooks st of
        (st1, None) \<Rightarrow> None
      | (st1, Some rq) \<Rightarrow> continue_session (performSearch_resolve st1 rq (page_response p)) ps)"

fun session :: "state \<Rightarrow> page \<Rightarrow> page list \<Rightarrow> state option" where
  "session st p0 ps =
     (case searchBooks st of
        (st1, None) \<Rightarrow> None
      | (st1, Some rq) \<Rightarrow> continue_session (performSearch_resolve st1 rq (page_response p0)) ps)"

subsection \<open>Sample data\<close>

text \<open>Records with pairwise different keys, the component after the user has typed a
  title, and the component after the first page of 45 matches has arrived.\<close>

definition work :: "nat \<Rightarrow> book" where
  "work j = \<lparr>key = ''/works/OL'' @ replicate j CHR ''1'' @ ''W'', title = ''Dune''\<rparr>"

definition works :: "nat \<Rightarrow> nat \<Rightarrow> book list" where
  "works i n = map work [i..<i + n]"

definition page45 :: "nat \<Rightarrow> response" where
  "page45 i = Json (Some (works (i * 20) 20)) (Some 45)"

definition typed_dune :: state where
  "typed_dune = setSearchQuery initial ''dune''"

definition first_page :: state where
  "first_page = typed_dune\<lparr>books := works 0 20, hasMore := True, totalBooks := 45\<rparr>"

text \<open>Two searches for different texts, the second one answered first.\<close>

definition two_searches :: "event list" where
  "two_searches = [SetSearchQuery ''dune'', SearchBooks, SetSearchQuery ''emma'', SearchBooks,
     Respond 1 (Json (Some (works 1 1)) (Some 1))]"


definition envelope_missing :: "event list" where
  "envelope_missing = [SetSearchQuery ''dune'', SearchBooks, Respond 0 (page45 0),
     ObserverFire, Respond 0 (Json None None)]"


text \<open>The text is cleared while a search is awaited.\<close>

definition cleared_in_flight :: "event list" where
  "cleared_in_flight = [SetSearchQuery ''dune'', SearchBooks, SetSearchQuery []]"


section \<open>Properties\<close>

subsection \<open>Auxiliary facts\<close>

lemmas handler_defs = setSearchQuery_def searchQuery_effect_def searchBooks_def
  performSearch_dispatch_def performSearch_resolve_def loadMoreBooks_def
  observer_callback_def loadMoreBooks_captured_def debounce_fire_def toggleFavorite_def
  Let_def limit_def numFound_or_0_def

lemma length_works: "length (works i n) = n"
  by (simp add: works_def)

lemma key_work_eq: "key (work i) = key (work j) \<longleftrightarrow> i = j"
  by (simp add: work_def)

lemma distinct_works: "distinct (map key (works i n))"
  by (simp add: works_def distinct_map inj_on_def key_work_eq)

lemma works_append: "works i n @ works (i + n) m = works i (n + m)"
proof -
  have "[i..<i + n + m] = [i..<i + n] @ [i + n..<i + n + m]"
    by (rule upt_add_eq_append) simp
  then have "map work [i..<i + n + m] = map work [i..<i + n] @ map work [i + n..<i + n + m]"
    by simp
  then show ?thesis by (simp only: works_def add.assoc)
qed

lemma typed_dune_eq:
  "typed_dune = initial\<lparr>searchQuery := ''dune'', debounceTimer := Some ''dune''\<rparr>"
  by (simp add: typed_dune_def setSearchQuery_def searchQuery_effect_def initial_def)

lemma trim_dune: "trim ''dune'' = ''dune''"
  by (simp add: trim_def is_ws_def)

lemma trim_emma: "trim ''emma'' = ''emma''"
  by (simp add: trim_def is_ws_def)

lemma trim_blank: "trim ''  '' = []"
  by (simp add: trim_def is_ws_def)

lemmas trace_simps = run_def step_def observer_effect_def initial_def handler_defs
  trim_dune trim_emma length_works page45_def

subsection \<open>Validation\<close>

text \<open>
  Claim C5. A \<open>performSearch\<close> call whose query is empty after trimming sets the
  validation message and returns before the await: it issues no request, and the
  books (as every cell but \<open>error\<close>) are as they were, whatever the page and the
  kind of search. \<open>searchBooks\<close> is such a call when the query text is blank.
\<close>

theorem empty_query_rejected:
  "trim query = [] \<Longrightarrow>
     performSearch_dispatch st query page isNewSearch = (st\<lparr>error := msg_enter_term\<rparr>, None) \<and>
     performSearch st query page isNewSearch resp = st\<lparr>error := msg_enter_term\<rparr> \<and>
     books (performSearch st query page isNewSearch resp) = books st \<and>
     (query = searchQuery st \<longrightarrow> searchBooks st = (st\<lparr>error := msg_enter_term\<rparr>, None))"
  by (auto simp add: performSearch_dispatch_def performSearch_def searchBooks_def)

theorem empty_query_rejected_witness:
  "trim ''  '' = [] \<and>
   performSearch_dispatch (initial\<lparr>searchQuery := ''  '', books := works 0 2\<rparr>) ''  '' 0 True =
     (initial\<lparr>searchQuery := ''  '', books := works 0 2, error := msg_enter_term\<rparr>, None) \<and>
   books (performSearch (initial\<lparr>searchQuery := ''  '', books := works 0 2\<rparr>) ''  '' 0 True Failed)
     = works 0 2 \<and>
   searchBooks (initial\<lparr>searchQuery := ''  '', books := works 0 2\<rparr>) =
     (initial\<lparr>searchQuery := ''  '', books := works 0 2, error := msg_enter_term\<rparr>, None)"
proof -
  from empty_query_rejected
    [OF trim_blank, of "initial\<lparr>searchQuery := ''  '', books := works 0 2\<rparr>" 0 True Failed]
  show ?thesis by (simp add: trim_blank)
qed

subsection \<open>hasMore\<close>

text \<open>
  Claim C2. After a response that carries \<open>docs\<close>, for a new search or a continuation
  and in whatever state it arrives, \<open>hasMore\<close> holds only if the page has exactly
  \<open>limit\<close> = 20 records and \<open>(currentPage + 1) * limit < totalBooks\<close>. In particular,
  \<open>searchBooks\<close> on a query that is not blank issues a request, and a page of fewer
  than 20 records in answer to it leaves \<open>hasMore\<close> false.
\<close>

theorem hasMore_after_page:
  "(hasMore (performSearch_resolve st rq (Json (Some docs) nf)) \<longrightarrow>
      length docs = limit \<and>
      int ((currentPage (performSearch_resolve st rq (Json (Some docs) nf)) + 1) * limit)
        < totalBooks (performSearch_resolve st rq (Json (Some docs) nf))) \<and>
   (trim (searchQuery st) \<noteq> [] \<and> length docs < limit \<longrightarrow>
      (\<exists>st1 rq1. searchBooks st = (st1, Some rq1) \<and>
         \<not> hasMore (performSearch_resolve st1 rq1 (Json (Some docs) nf))))"
  by (simp add: performSearch_resolve_def performSearch_dispatch_def searchBooks_def
      Let_def limit_def)

theorem hasMore_after_page_witness:
  "hasMore (performSearch_resolve typed_dune
      \<lparr>rq_query = ''dune'', rq_page = 0, rq_isNewSearch = True\<rparr>
      (Json (Some (works 0 20)) (Some 45))) \<and>
   trim (searchQuery typed_dune) \<noteq> [] \<and> length (works 0 5) < limit \<and>
   (\<exists>st1 rq1. searchBooks typed_dune = (st1, Some rq1) \<and>
      \<not> hasMore (performSearch_resolve st1 rq1 (Json (Some (works 0 5)) (Some 5))))"
proof -
  have a: "hasMore (performSearch_resolve typed_dune
      \<lparr>rq_query = ''dune'', rq_page = 0, rq_isNewSearch = True\<rparr>
      (Json (Some (works 0 20)) (Some 45)))"
    by (simp add: performSearch_resolve_def Let_def length_works limit_def numFound_or_0_def)
  have b: "trim (searchQuery typed_dune) \<noteq> [] \<and> length (works 0 5) < limit"
    by (simp add: typed_dune_eq trim_dune length_works limit_def)
  from hasMore_after_page [of typed_dune _ "works 0 5" "Some 5"] a b
  show ?thesis by blast
qed

text \<open>
  Claim C10. A response with \<open>docs\<close> and without \<open>numFound\<close> sets \<open>totalBooks\<close> to 0
  and \<open>hasMore\<close> to false, whatever the number of records in the page.
\<close>

theorem missing_numFound:
  "totalBooks (performSearch_resolve st rq (Json (Some docs) None)) = 0 \<and>
   \<not> hasMore (performSearch_resolve st rq (Json (Some docs) None))"
  by (simp add: performSearch_resolve_def numFound_or_0_def limit_def Let_def)

subsection \<open>Accumulated records\<close>

lemma loadMoreBooks_Some:
  "loadMoreBooks st = (st1, Some rq) \<Longrightarrow>
     books st1 = books st \<and> loadingMore st1 \<and> \<not> rq_isNewSearch rq"
  by (auto simp add: loadMoreBooks_def performSearch_dispatch_def split: if_splits)

lemma searchBooks_Some:
  "searchBooks st = (st1, Some rq) \<Longrightarrow> rq_isNewSearch rq"
  by (auto simp add: searchBooks_def performSearch_dispatch_def split: if_splits)

lemma books_resolve_page:
  "books (performSearch_resolve st rq (Json (Some docs) nf)) =
     (if rq_isNewSearch rq then docs else books st @ docs)"
  by (simp add: performSearch_resolve_def Let_def)

lemma books_continue_session:
  "continue_session st ps = Some st' \<Longrightarrow> books st' = books st @ concat (map fst ps)"
proof (induction ps arbitrary: st)
  case Nil
  then show ?case by simp
next
  case (Cons p ps)
  obtain docs nf where p: "p = (docs, nf)" by (cases p)
  from Cons.prems obtain st1 rq where
    l: "loadMoreBooks st = (st1, Some rq)" and
    c: "continue_session (performSearch_resolve st1 rq (page_response p)) ps = Some st'"
    by (auto split: prod.splits option.splits)
  from Cons.IH [OF c] loadMoreBooks_Some [OF l] show ?case
    by (simp add: p books_resolve_page)
qed

lemma books_session:
  assumes s: "session st p0 ps = Some st'"
  shows "books st' = concat (map fst (p0 # ps))"
proof -
  obtain docs nf where p: "p0 = (docs, nf)" by (cases p0)
  from s obtain st1 rq where
    l: "searchBooks st = (st1, Some rq)" and
    c: "continue_session (performSearch_resolve st1 rq (page_response p0)) ps = Some st'"
    by (auto split: prod.splits option.splits)
  from books_continue_session [OF c] searchBooks_Some [OF l] show ?thesis
    by (simp add: p books_resolve_page)
qed

lemma session_dune:
  "session typed_dune (works 0 20, Some 45) [(works 20 20, Some 45), (works 40 5, Some 45)] =
     Some (typed_dune\<lparr>books := works 0 20 @ works 20 20 @ works 40 5, currentPage := 2,
       totalBooks := 45\<rparr>)"
  by (simp add: typed_dune_eq initial_def handler_defs trim_dune length_works)

lemma distinct_three_pages:
  "distinct (map key (works 0 20 @ works 20 20 @ works 40 5))"
proof -
  have "works 0 20 @ works 20 20 @ works 40 5 = works 0 45"
    using works_append [of 20 20 5] works_append [of 0 20 25] by simp
  then show ?thesis by (simp only: distinct_works)
qed

text \<open>
  Claim C3. In a session of one new search and its continuations, each answered by a
  page of records before the next one starts, the books are the pages' records one
  page after the other: their number is the sum of the pages' sizes, and when no key
  occurs twice in the pages, no key occurs twice in the books.
\<close>

theorem session_accumulates:
  assumes "session st p0 ps = Some st'"
    and "distinct (map key (concat (map fst (p0 # ps))))"
  shows "books st' = concat (map fst (p0 # ps)) \<and>
         length (books st') = sum_list (map (\<lambda>p. length (fst p)) (p0 # ps)) \<and>
         distinct (map key (books st'))"
proof -
  have b: "books st' = concat (map fst (p0 # ps))"
    using assms(1) by (rule books_session)
  have "length (concat (map fst (p0 # ps))) = sum_list (map (\<lambda>p. length (fst p)) (p0 # ps))"
    by (simp add: length_concat comp_def)
  with b assms(2) show ?thesis by simp
qed

theorem session_accumulates_witness:
  "session typed_dune (works 0 20, Some 45) [(works 20 20, Some 45), (works 40 5, Some 45)] =
     Some (typed_dune\<lparr>books := works 0 20 @ works 20 20 @ works 40 5, currentPage := 2,
       totalBooks := 45\<rparr>) \<and>
   distinct (map key (concat (map fst
     [(works 0 20, Some (45::int)), (works 20 20, Some 45), (works 40 5, Some 45)]))) \<and>
   length (books (typed_dune\<lparr>books := works 0 20 @ works 20 20 @ works 40 5,
     currentPage := 2, totalBooks := 45\<rparr>)) = 45 \<and>
   distinct (map key (books (typed_dune\<lparr>books := works 0 20 @ works 20 20 @ works 40 5,
     currentPage := 2, totalBooks := 45\<rparr>)))"
proof -
  have d: "distinct (map key (concat (map fst
     [(works 0 20, Some (45::int)), (works 20 20, Some 45), (works 40 5, Some 45)])))"
    using distinct_three_pages by simp
  from session_accumulates [OF session_dune d] session_dune d
  show ?thesis by (simp add: length_works)
qed

text \<open>
  Claim C4. A search for a query that is not blank (such as the title "dune") is
  answered by 20 records with \<open>numFound\<close> = 45: then \<open>hasMore\<close> holds and
  \<open>currentPage\<close> is 0. A continuation answered by 20 records gives 40 books and
  \<open>hasMore\<close>; one more, answered by 5 records, gives 45 books and no \<open>hasMore\<close>.
\<close>

theorem dune_scenario:
  assumes "trim (searchQuery st) \<noteq> []"
    and "length d0 = 20" and "length d1 = 20" and "length d2 = 5"
  shows "\<exists>s0 s1 s2.
     session st (d0, Some 45) [] = Some s0 \<and> hasMore s0 \<and> currentPage s0 = 0 \<and>
     session st (d0, Some 45) [(d1, Some 45)] = Some s1 \<and>
       length (books s1) = 40 \<and> hasMore s1 \<and>
     session st (d0, Some 45) [(d1, Some 45), (d2, Some 45)] = Some s2 \<and>
       length (books s2) = 45 \<and> \<not> hasMore s2"
  using assms by (simp add: handler_defs)

theorem dune_scenario_witness:
  "trim (searchQuery typed_dune) \<noteq> [] \<and>
   length (works 0 20) = 20 \<and> length (works 20 20) = 20 \<and> length (works 40 5) = 5 \<and>
   (\<exists>s0 s1 s2.
     session typed_dune (works 0 20, Some 45) [] = Some s0 \<and> hasMore s0 \<and>
       currentPage s0 = 0 \<and>
     session typed_dune (works 0 20, Some 45) [(works 20 20, Some 45)] = Some s1 \<and>
       length (books s1) = 40 \<and> hasMore s1 \<and>
     session typed_dune (works 0 20, Some 45) [(works 20 20, Some 45), (works 40 5, Some 45)]
       = Some s2 \<and> length (books s2) = 45 \<and> \<not> hasMore s2)"
proof -
  have q: "trim (searchQuery typed_dune) \<noteq> []"
    by (simp add: typed_dune_eq trim_dune)
  from dune_scenario [OF q length_works length_works length_works] q
  show ?thesis by (simp only: length_works simp_thms)
qed

subsection \<open>Responses and the current query\<close>

text \<open>
  A search for "dune" is awaited when the text becomes "emma" and a second search
  starts. The answer to the second search arrives and gives the books. Then the answer
  to the first search arrives, for a query that is no longer the current one: the
  books become the records of that answer.
\<close>

theorem stale_response_applied:
  "snd (run two_searches (initial, [])) =
      [\<lparr>rq_query = ''dune'', rq_page = 0, rq_isNewSearch = True\<rparr>] \<and>
   searchQuery (fst (run two_searches (initial, []))) = ''emma'' \<and>
   books (fst (run two_searches (initial, []))) = works 1 1 \<and>
   books (fst (step (Respond 0 (Json (Some (works 0 1)) (Some 1)))
     (run two_searches (initial, [])))) = works 0 1 \<and>
   works 0 1 \<noteq> works 1 1"
  by (simp add: two_searches_def trace_simps works_def work_def)

text \<open>
  Claim C1, as the component has it. The part of \<open>performSearch\<close> after the await
  reads neither the current query nor the query of its own call: it does the same
  whatever they are. An answer with \<open>docs\<close> to a new search replaces the books by its
  records, and an answer to a continuation appends its records, in whatever state it
  arrives; so of two new searches awaited together, when the answer that arrives last
  has \<open>docs\<close>, its records are the books. An answer with \<open>docs\<close> also sets
  \<open>totalBooks\<close>, \<open>currentPage\<close> and \<open>hasMore\<close>. A failure and an answer without \<open>docs\<close>
  leave the books, \<open>totalBooks\<close>, \<open>currentPage\<close> and \<open>hasMore\<close> as they find them, and
  a failure sets the connection message. Every answer clears both loading flags.
\<close>

theorem response_applied_whatever_query:
  "performSearch_resolve (st\<lparr>searchQuery := q\<rparr>) rq resp =
     (performSearch_resolve st rq resp)\<lparr>searchQuery := q\<rparr> \<and>
   performSearch_resolve st (rq\<lparr>rq_query := q\<rparr>) resp = performSearch_resolve st rq resp \<and>
   books (performSearch_resolve st rq (Json (Some docs) nf)) =
     (if rq_isNewSearch rq then docs else books st @ docs) \<and>
   totalBooks (performSearch_resolve st rq (Json (Some docs) nf)) = numFound_or_0 nf \<and>
   currentPage (performSearch_resolve st rq (Json (Some docs) nf)) = rq_page rq \<and>
   hasMore (performSearch_resolve st rq (Json (Some docs) nf)) =
     (length docs = limit \<and> int ((rq_page rq + 1) * limit) < numFound_or_0 nf) \<and>
   books (performSearch_resolve (performSearch_resolve st rq resp)
       (rq'\<lparr>rq_isNewSearch := True\<rparr>) (Json (Some docs) nf)) = docs \<and>
   books (performSearch_resolve st rq Failed) = books st \<and>
   books (performSearch_resolve st rq (Json None nf)) = books st \<and>
   totalBooks (performSearch_resolve st rq Failed) = totalBooks st \<and>
   totalBooks (performSearch_resolve st rq (Json None nf)) = totalBooks st \<and>
   currentPage (performSearch_resolve st rq Failed) = currentPage st \<and>
   currentPage (performSearch_resolve st rq (Json None nf)) = currentPage st \<and>
   hasMore (performSearch_resolve st rq Failed) = hasMore st \<and>
   hasMore (performSearch_resolve st rq (Json None nf)) = hasMore st \<and>
   error (performSearch_resolve st rq Failed) = msg_failed \<and>
   \<not> loading (performSearch_resolve st rq resp) \<and>
   \<not> loadingMore (performSearch_resolve st rq resp)"
  by (simp add: performSearch_resolve_def Let_def split: response.split option.split)

subsection \<open>Failures\<close>

text \<open>
  A continuation is answered by a body without \<open>docs\<close>: the 20 books stay, no
  message is set and the component shows the status \<open>Idle\<close>.
\<close>

theorem missing_docs_no_error:
  "snd (run envelope_missing (initial, [])) = [] \<and>
   books (fst (run envelope_missing (initial, []))) = works 0 20 \<and>
   error (fst (run envelope_missing (initial, []))) = [] \<and>
   status_of (fst (run envelope_missing (initial, []))) = Idle"
  by (simp add: envelope_missing_def trace_simps status_of_def)

text \<open>
  Claim C6, as the component has it. For a query that is not blank: when the fetch
  fails (the \<open>catch\<close> block), a continuation keeps the books and a new search leaves
  them empty, and both set the connection message, so that the status is \<open>Error\<close>.
  When the body has no \<open>docs\<close>, a continuation keeps the books and sets no message,
  so that the status is \<open>Idle\<close>, and a new search leaves the books empty and sets the
  message that no books were found.
\<close>

theorem failed_fetch:
  assumes "trim query \<noteq> []"
  shows "books (performSearch st query page False Failed) = books st \<and>
         error (performSearch st query page False Failed) = msg_failed \<and>
         status_of (performSearch st query page False Failed) = Error \<and>
         books (performSearch st query page True Failed) = [] \<and>
         error (performSearch st query page True Failed) = msg_failed \<and>
         status_of (performSearch st query page True Failed) = Error \<and>
         books (performSearch st query page False (Json None nf)) = books st \<and>
         error (performSearch st query page False (Json None nf)) = [] \<and>
         status_of (performSearch st query page False (Json None nf)) = Idle \<and>
         books (performSearch st query page True (Json None nf)) = [] \<and>
         error (performSearch st query page True (Json None nf)) = msg_no_books"
  using assms
  by (simp add: performSearch_def performSearch_dispatch_def performSearch_resolve_def
      status_of_def msg_failed_def)

theorem failed_fetch_witness:
  "trim ''dune'' \<noteq> [] \<and>
   books (performSearch first_page ''dune'' 1 False Failed) = works 0 20 \<and>
   error (performSearch first_page ''dune'' 1 False Failed) = msg_failed \<and>
   status_of (performSearch first_page ''dune'' 1 False Failed) = Error \<and>
   books (performSearch first_page ''dune'' 1 True Failed) = [] \<and>
   error (performSearch first_page ''dune'' 1 False (Json None None)) = []"
proof -
  have q: "trim ''dune'' \<noteq> []" by (simp add: trim_dune)
  have b: "books first_page = works 0 20" by (simp add: first_page_def)
  from failed_fetch [OF q, of first_page 1 None] q b
  show ?thesis by simp
qed

subsection \<open>Clearing the query text\<close>

text \<open>
  The text is cleared while a search is awaited: the request stays pending and
  \<open>loading\<close> stays set, so the status is \<open>Loading\<close>.
\<close>

theorem clear_keeps_loading:
  "snd (run cleared_in_flight (initial, [])) =
      [\<lparr>rq_query = ''dune'', rq_page = 0, rq_isNewSearch = True\<rparr>] \<and>
   loading (fst (run cleared_in_flight (initial, []))) \<and>
   status_of (fst (run cleared_in_flight (initial, []))) = Loading"
  by (simp add: cleared_in_flight_def trace_simps status_of_def)

text \<open>
  Claim C7, as the component has it. Changing the query text to the empty text
  empties the books, clears \<open>hasMore\<close>, sets \<open>totalBooks\<close> to 0 and cancels the timer;
  it issues no request and leaves \<open>loading\<close>, \<open>loadingMore\<close>, \<open>error\<close> and
  \<open>currentPage\<close> as they are. When the text is empty already, nothing changes. The
  event is this change, followed by the observer's effect.
\<close>

theorem clear_query_text:
  "setSearchQuery st [] =
     (if searchQuery st = [] then st
      else st\<lparr>searchQuery := [], debounceTimer := None, books := [], hasMore := False,
              totalBooks := 0\<rparr>) \<and>
   step (SetSearchQuery []) (st, rs) = (observer_effect st (setSearchQuery st []), rs)"
  by (simp add: setSearchQuery_def searchQuery_effect_def step_def)

subsection \<open>The guard of loadMoreBooks\<close>





lemma loadMoreBooks_captured_current:
  "loadMoreBooks st = loadMoreBooks_captured (searchQuery st) (currentPage st) st"
  by (simp add: loadMoreBooks_def loadMoreBooks_captured_def)

text \<open>After the first page for "dune" the text becomes "emma", which changes none of
  the three flags: the observer's callback still asks for page 1 of "dune".\<close>

lemma observer_closure_stale:
  "snd (run [SetSearchQuery ''dune'', SearchBooks, Respond 0 (page45 0),
        SetSearchQuery ''emma'', ObserverFire] (initial, [])) =
     [\<lparr>rq_query = ''dune'', rq_page = 1, rq_isNewSearch = False\<rparr>]"
  by (simp add: trace_simps)





subsection \<open>Favorites\<close>

lemma list_ex_filter_key:
  "list_ex (\<lambda>fav. key fav = k) (filter (\<lambda>fav. key fav \<noteq> k') fs) =
     (k \<noteq> k' \<and> list_ex (\<lambda>fav. key fav = k) fs)"
  by (induction fs) auto

text \<open>
  Claim C9. \<open>toggleFavorite\<close> turns \<open>isFavorite\<close> over for the records with the key of
  its argument and for no other record, so that two calls in a row leave \<open>isFavorite\<close>
  as it was for every record. \<open>toggleFavorite\<close> changes no cell but \<open>favorites\<close>, and
  the new favorites and the answer of \<open>isFavorite\<close> are the same in any two states
  with the same favorites.
\<close>

theorem toggleFavorite_twice:
  "isFavorite (toggleFavorite st b) c =
     (if key c = key b then \<not> isFavorite st c else isFavorite st c) \<and>
   isFavorite (toggleFavorite (toggleFavorite st b) b) c = isFavorite st c \<and>
   toggleFavorite st b = st\<lparr>favorites := favorites (toggleFavorite st b)\<rparr> \<and>
   favorites (toggleFavorite st b) =
     favorites (toggleFavorite (st'\<lparr>favorites := favorites st\<rparr>) b) \<and>
   isFavorite st b = isFavorite (st'\<lparr>favorites := favorites st\<rparr>) b"
  by (auto simp add: isFavorite_def toggleFavorite_def Let_def list_ex_filter_key)

end
